theory Spec2Isabelle
  imports Main "HOL-Library.AList"
begin

section \<open>JavaScript values\<close>

text \<open>
  The lightweight client (\<^verbatim>\<open>lib/client.js\<close>) and the skill's helpers (\<^verbatim>\<open>index.js\<close>) work on
  parsed JSON. A JSON value is a \<open>json\<close>; a JavaScript expression that may be \<^verbatim>\<open>undefined\<close>
  is a \<open>json option\<close>, with \<open>None\<close> for \<^verbatim>\<open>undefined\<close>. Numbers are integers (HTTP statuses, epoch
  seconds, counters, scores); fractions and values beyond \<open>2^53\<close> are outside the model.
  Strings are byte lists (UTF-8). Objects are association lists read with \<open>map_of\<close>; the
  order of the keys is not part of any statement below.
\<close>

datatype json =
    JNull
  | JBool bool
  | JNum int
  | JStr string
  | JArr "json list"
  | JObj "(string \<times> json) list"

text \<open>Truthiness, as \<^verbatim>\<open>||\<close>, \<^verbatim>\<open>&&\<close> and \<^verbatim>\<open>if\<close> see it.\<close>

fun truthy :: "json option \<Rightarrow> bool" where
  "truthy None = False"
| "truthy (Some JNull) = False"
| "truthy (Some (JBool b)) = b"
| "truthy (Some (JNum n)) = (n \<noteq> 0)"
| "truthy (Some (JStr s)) = (s \<noteq> [])"
| "truthy (Some (JArr xs)) = True"
| "truthy (Some (JObj kvs)) = True"

text \<open>\<^verbatim>\<open>a || b\<close>\<close>

definition js_or :: "json option \<Rightarrow> json option \<Rightarrow> json option" where
  "js_or a b = (if truthy a then a else b)"

text \<open>Errors are thrown objects: their class, their message and the own properties the code
  assigns to them after construction.\<close>

datatype error_class = Error | TypeError | SyntaxError

record js_error =
  err_class :: error_class
  message :: string
  props :: "(string \<times> json) list"

text \<open>\<^verbatim>\<open>err.k\<close> for a property \<open>k\<close> other than \<^verbatim>\<open>message\<close>: \<^verbatim>\<open>undefined\<close> unless the code assigned it.\<close>

definition error_prop :: "js_error \<Rightarrow> string \<Rightarrow> json option" where
  "error_prop e k = map_of (props e) k"

definition type_error :: "string \<Rightarrow> js_error" where
  "type_error msg = \<lparr>err_class = TypeError, message = msg, props = []\<rparr>"

definition syntax_error :: "string \<Rightarrow> js_error" where
  "syntax_error msg = \<lparr>err_class = SyntaxError, message = msg, props = []\<rparr>"

text \<open>A name between single quotes, as error messages print it.\<close>

definition quoted :: "string \<Rightarrow> string" where
  "quoted k = CHR 0x27 # k @ [CHR 0x27]"

text \<open>
  \<^verbatim>\<open>v.k\<close>: reading a property of \<^verbatim>\<open>undefined\<close> or \<^verbatim>\<open>null\<close> throws a TypeError; an object gives the
  value stored under the key or \<^verbatim>\<open>undefined\<close>; the other values have none of the keys this code
  reads (\<^verbatim>\<open>message\<close>, \<^verbatim>\<open>data\<close>, \<^verbatim>\<open>posts\<close>, \<^verbatim>\<open>apiKey\<close>, \<^verbatim>\<open>lastMoltbookCheck\<close>, \<^verbatim>\<open>score\<close>, \<^verbatim>\<open>title\<close>, ...).
\<close>

definition get_prop :: "json option \<Rightarrow> string \<Rightarrow> js_error + json option" where
  "get_prop v k =
     (case v of
        None \<Rightarrow>
          Inl (type_error (''Cannot read properties of undefined (reading '' @ quoted k @ '')''))
      | Some JNull \<Rightarrow>
          Inl (type_error (''Cannot read properties of null (reading '' @ quoted k @ '')''))
      | Some (JObj kvs) \<Rightarrow> Inr (map_of kvs k)
      | Some _ \<Rightarrow> Inr None)"

text \<open>Sequencing of computations that may throw.\<close>

definition bindE :: "'e + 'a \<Rightarrow> ('a \<Rightarrow> 'e + 'b) \<Rightarrow> 'e + 'b" where
  "bindE x f = (case x of Inl e \<Rightarrow> Inl e | Inr a \<Rightarrow> f a)"

subsection \<open>Numbers to strings and back\<close>

definition digit_char :: "nat \<Rightarrow> char" where
  "digit_char n = ''0123456789ABCDEF'' ! (n mod 16)"

fun nat_str :: "nat \<Rightarrow> string" where
  "nat_str n = (if n < 10 then [digit_char n] else nat_str (n div 10) @ [digit_char (n mod 10)])"

declare nat_str.simps [simp del]

definition int_str :: "int \<Rightarrow> string" where
  "int_str i = (if i < 0 then CHR ''-'' # nat_str (nat (- i)) else nat_str (nat i))"

fun join_str :: "string \<Rightarrow> string list \<Rightarrow> string" where
  "join_str sep [] = []"
| "join_str sep [x] = x"
| "join_str sep (x # y # ys) = x @ sep @ join_str sep (y # ys)"

text \<open>
  \<^verbatim>\<open>String(v)\<close>, the conversion a template literal and \<^verbatim>\<open>new Error(v)\<close> apply. An array joins
  the strings of its elements, \<^verbatim>\<open>null\<close> giving the empty string. An object parsed from JSON
  gives \<^verbatim>\<open>[object Object]\<close> through \<^verbatim>\<open>Object.prototype.toString\<close>, unless it has a key \<^verbatim>\<open>toString\<close>
  of its own: that value is no function, \<^verbatim>\<open>valueOf\<close> gives no primitive either, and the
  conversion throws a TypeError.
\<close>

fun to_string :: "json \<Rightarrow> js_error + string"
  and elem_strings :: "json list \<Rightarrow> js_error + string list" where
  "to_string JNull = Inr ''null''"
| "to_string (JBool b) = Inr (if b then ''true'' else ''false'')"
| "to_string (JNum n) = Inr (int_str n)"
| "to_string (JStr s) = Inr s"
| "to_string (JArr xs) =
     (case elem_strings xs of
        Inl e \<Rightarrow> Inl e
      | Inr ss \<Rightarrow> Inr (join_str '','' ss))"
| "to_string (JObj kvs) =
     (if map_of kvs ''toString'' \<noteq> None
      then Inl (type_error ''Cannot convert object to primitive value'')
      else Inr ''[object Object]'')"
| "elem_strings [] = Inr []"
| "elem_strings (x # xs) =
     (case (if x = JNull then Inr [] else to_string x) of
        Inl e \<Rightarrow> Inl e
      | Inr s \<Rightarrow>
          (case elem_strings xs of
             Inl e \<Rightarrow> Inl e
           | Inr ss \<Rightarrow> Inr (s # ss)))"

text \<open>A substitution of a template literal: \<^verbatim>\<open>undefined\<close> prints as its name.\<close>

definition template_str :: "json option \<Rightarrow> js_error + string" where
  "template_str v = (case v of None \<Rightarrow> Inr ''undefined'' | Some j \<Rightarrow> to_string j)"

text \<open>
  The number a value stands for in arithmetic and in a comparison with a number; \<open>None\<close> is
  \<^verbatim>\<open>NaN\<close>. \<^verbatim>\<open>undefined\<close> is \<^verbatim>\<open>NaN\<close>. How JavaScript reads a string as a number is the parameter
  \<open>str_num\<close>. Arrays and objects go through their string, and throw where that conversion
  throws.
\<close>

definition to_number :: "(string \<Rightarrow> int option) \<Rightarrow> json option \<Rightarrow> js_error + int option" where
  "to_number str_num v =
     (case v of
        None \<Rightarrow> Inr None
      | Some JNull \<Rightarrow> Inr (Some 0)
      | Some (JBool b) \<Rightarrow> Inr (Some (if b then 1 else 0))
      | Some (JNum n) \<Rightarrow> Inr (Some n)
      | Some (JStr s) \<Rightarrow> Inr (str_num s)
      | Some j \<Rightarrow> bindE (to_string j) (\<lambda>s. Inr (str_num s)))"

text \<open>\<^verbatim>\<open>v < n\<close> and \<^verbatim>\<open>v > n\<close> for a number \<open>n\<close>: false when \<open>v\<close> is \<^verbatim>\<open>NaN\<close>.\<close>

definition js_lt :: "(string \<Rightarrow> int option) \<Rightarrow> json option \<Rightarrow> int \<Rightarrow> js_error + bool" where
  "js_lt str_num v n =
     bindE (to_number str_num v) (\<lambda>x. Inr (case x of None \<Rightarrow> False | Some i \<Rightarrow> i < n))"

definition js_gt :: "(string \<Rightarrow> int option) \<Rightarrow> json option \<Rightarrow> int \<Rightarrow> js_error + bool" where
  "js_gt str_num v n =
     bindE (to_number str_num v) (\<lambda>x. Inr (case x of None \<Rightarrow> False | Some i \<Rightarrow> i > n))"

text \<open>
  \<^verbatim>\<open>parseInt(s)\<close> with no radix: leading white space and a sign are skipped, a prefix \<^verbatim>\<open>0x\<close>
  selects base 16, the longest run of digits is read, and no digit at all gives \<^verbatim>\<open>NaN\<close>
  (\<open>None\<close>).
\<close>

definition is_space :: "char \<Rightarrow> bool" where
  "is_space c = (c \<in> set [CHR '' '', CHR 0x09, CHR 0x0A, CHR 0x0B, CHR 0x0C, CHR 0x0D])"

definition digit_val :: "char \<Rightarrow> nat" where
  "digit_val c =
     (let n = (of_char c :: nat) in
      if 48 \<le> n \<and> n \<le> 57 then n - 48
      else if 97 \<le> n \<and> n \<le> 122 then n - 87
      else if 65 \<le> n \<and> n \<le> 90 then n - 55
      else 36)"

definition parseInt :: "string \<Rightarrow> int option" where
  "parseInt s =
     (let s1 = dropWhile is_space s;
          neg = (take 1 s1 = ''-'');
          s2 = (if take 1 s1 = ''-'' \<or> take 1 s1 = ''+'' then drop 1 s1 else s1);
          hex = (take 2 s2 = ''0x'' \<or> take 2 s2 = ''0X'');
          radix = (if hex then 16 else 10);
          s3 = (if hex then drop 2 s2 else s2);
          ds = takeWhile (\<lambda>c. digit_val c < radix) s3;
          n = foldl (\<lambda>a c. a * radix + digit_val c) 0 ds
      in if ds = [] then None else Some (if neg then - int n else int n))"

section \<open>The client: \<^verbatim>\<open>MoltbookClient\<close>\<close>

text \<open>
  The reply of \<^verbatim>\<open>fetch\<close> is a parameter of the model: either the request never got a
  response, or a response with its status, status text, headers (one entry per name, the
  names in lower case, as the \<^verbatim>\<open>Headers\<close> object keeps them) and body. The body is the JSON
  value it parses to, or \<open>None\<close> when it is not JSON.
\<close>

record response =
  status :: int
  statusText :: string
  headers :: "(string \<times> string) list"
  body :: "json option"

datatype fetch_outcome = NetworkFailure | Response response

text \<open>\<^verbatim>\<open>response.ok\<close>\<close>

definition ok :: "response \<Rightarrow> bool" where
  "ok r = (200 \<le> status r \<and> status r \<le> 299)"

text \<open>\<^verbatim>\<open>response.headers.get(name) || '0'\<close>: a missing header and an empty one both give \<^verbatim>\<open>'0'\<close>.\<close>

definition header_or_0 :: "response \<Rightarrow> string \<Rightarrow> string" where
  "header_or_0 r name =
     (case map_of (headers r) name of
        None \<Rightarrow> ''0''
      | Some v \<Rightarrow> if v = [] then ''0'' else v)"

text \<open>The snapshot. \<open>None\<close> in a field is \<^verbatim>\<open>NaN\<close>; \<open>resetAt\<close> is the time value of the \<^verbatim>\<open>Date\<close>
  in milliseconds, \<open>None\<close> for an invalid date.\<close>

record rate_limit_info =
  limit :: "int option"
  remaining :: "int option"
  reset :: "int option"
  resetAt :: "int option"

text \<open>\<^verbatim>\<open>new Date(ms)\<close>: a time value beyond 8.64e15 milliseconds is an invalid date.\<close>

definition new_Date :: "int option \<Rightarrow> int option" where
  "new_Date ms =
     (case ms of
        None \<Rightarrow> None
      | Some t \<Rightarrow> if \<bar>t\<bar> \<le> 8640000000000000 then Some t else None)"

record client =
  apiKey :: "json option"
  baseUrl :: string
  rateLimitInfo :: "rate_limit_info option"

definition BASE_URL :: string where
  "BASE_URL = ''https://www.moltbook.com/api/v1''"

definition snapshot_of :: "response \<Rightarrow> rate_limit_info" where
  "snapshot_of r =
     \<lparr>limit = parseInt (header_or_0 r ''x-ratelimit-limit''),
      remaining = parseInt (header_or_0 r ''x-ratelimit-remaining''),
      reset = parseInt (header_or_0 r ''x-ratelimit-reset''),
      resetAt = new_Date (map_option (\<lambda>t. t * 1000) (parseInt (header_or_0 r ''x-ratelimit-reset'')))\<rparr>"

text \<open>\<^verbatim>\<open>`${this.baseUrl}${path}`\<close>\<close>

definition request_url :: "client \<Rightarrow> string \<Rightarrow> string" where
  "request_url c path = baseUrl c @ path"

text \<open>
  \<^verbatim>\<open>request(method, path)\<close>, from the reply on: the result is the thrown error or the parsed
  body, together with the client as the call leaves it. The outgoing headers and body do
  not influence what follows and are not modelled. On a status outside 200..299,
  \<^verbatim>\<open>error.message\<close> throws when the body is \<^verbatim>\<open>null\<close>, and \<^verbatim>\<open>new Error(...)\<close> throws when the message
  has no string; neither error gets a \<^verbatim>\<open>statusCode\<close>.
\<close>

definition request ::
  "client \<Rightarrow> string \<Rightarrow> string \<Rightarrow> fetch_outcome \<Rightarrow> (js_error + json) \<times> client" where
  "request c method path fr =
     (case fr of
        NetworkFailure \<Rightarrow> (Inl (type_error ''fetch failed''), c)
      | Response r \<Rightarrow>
          (let c' = c\<lparr>rateLimitInfo := Some (snapshot_of r)\<rparr> in
           if \<not> ok r then
             (let error = (case body r of
                             None \<Rightarrow> JObj [(''message'', JStr (statusText r))]
                           | Some j \<Rightarrow> j)
              in case get_prop (Some error) ''message'' of
                   Inl te \<Rightarrow> (Inl te, c')
                 | Inr m \<Rightarrow>
                     (case (case js_or m (Some (JStr (''HTTP '' @ int_str (status r)))) of
                              None \<Rightarrow> Inr []
                            | Some v \<Rightarrow> to_string v) of
                        Inl te \<Rightarrow> (Inl te, c')
                      | Inr msg \<Rightarrow>
                          (Inl \<lparr>err_class = Error, message = msg,
                                props = [(''statusCode'', JNum (status r)), (''response'', error)]\<rparr>,
                           c')))
           else (case body r of
                   None \<Rightarrow> (Inl (syntax_error ''Unexpected token in JSON''), c')
                 | Some j \<Rightarrow> (Inr j, c'))))"

definition getRateLimitInfo :: "client \<Rightarrow> rate_limit_info option" where
  "getRateLimitInfo c = rateLimitInfo c"

text \<open>\<^verbatim>\<open>this.rateLimitInfo && this.rateLimitInfo.remaining === 0\<close>: \<^verbatim>\<open>null\<close> (\<open>None\<close>) when there is
  no snapshot, a boolean otherwise.\<close>

definition isRateLimited :: "client \<Rightarrow> bool option" where
  "isRateLimited c =
     (case rateLimitInfo c of
        None \<Rightarrow> None
      | Some i \<Rightarrow> Some (remaining i = Some 0))"

definition getRateLimitReset :: "client \<Rightarrow> int option option" where
  "getRateLimitReset c =
     (case rateLimitInfo c of
        None \<Rightarrow> None
      | Some i \<Rightarrow> Some (resetAt i))"

text \<open>
  \<^verbatim>\<open>new MoltbookClient(options)\<close>. A field of the options that is \<open>None\<close> was not given;
  an empty \<^verbatim>\<open>baseUrl\<close> is falsy and gives the default.
\<close>

record client_options =
  opt_apiKey :: "json option"
  opt_baseUrl :: "string option"

definition new_client :: "client_options \<Rightarrow> client" where
  "new_client options =
     \<lparr>apiKey = opt_apiKey options,
      baseUrl = (case opt_baseUrl options of
                   None \<Rightarrow> BASE_URL
                 | Some u \<Rightarrow> if u = [] then BASE_URL else u),
      rateLimitInfo = None\<rparr>"

subsection \<open>Paths\<close>

text \<open>
  \<^verbatim>\<open>encodeURIComponent\<close>: letters, digits and \<^verbatim>\<open>- _ . ! ~ * ' ( )\<close> stay, every other byte of
  the UTF-8 string becomes \<^verbatim>\<open>%XX\<close> with upper-case hexadecimal digits.
\<close>

definition is_alnum :: "char \<Rightarrow> bool" where
  "is_alnum c =
     (let n = (of_char c :: nat) in
      (48 \<le> n \<and> n \<le> 57) \<or> (65 \<le> n \<and> n \<le> 90) \<or> (97 \<le> n \<and> n \<le> 122))"

definition unreserved :: "char \<Rightarrow> bool" where
  "unreserved c =
     (is_alnum c \<or> c \<in> set [CHR ''-'', CHR ''_'', CHR ''.'', CHR ''!'', CHR ''~'', CHR ''*'',
                                CHR 0x27, CHR ''('', CHR '')''])"

definition pct :: "char \<Rightarrow> string" where
  "pct c = [CHR ''%'', digit_char ((of_char c :: nat) div 16), digit_char ((of_char c :: nat) mod 16)]"

definition encodeURIComponent :: "string \<Rightarrow> string" where
  "encodeURIComponent s = concat (map (\<lambda>c. if unreserved c then [c] else pct c) s)"

text \<open>The path each method hands to \<^verbatim>\<open>request\<close>, for the methods that put an identifier
  into it.\<close>

definition getAgent_path :: "string \<Rightarrow> string" where
  "getAgent_path name = ''/agents/profile?name='' @ encodeURIComponent name"

definition follow_path :: "string \<Rightarrow> string" where
  "follow_path name = ''/agents/'' @ encodeURIComponent name @ ''/follow''"

definition unfollow_path :: "string \<Rightarrow> string" where
  "unfollow_path name = ''/agents/'' @ encodeURIComponent name @ ''/follow''"

definition getPost_path :: "string \<Rightarrow> string" where
  "getPost_path ident = ''/posts/'' @ ident"

definition deletePost_path :: "string \<Rightarrow> string" where
  "deletePost_path ident = ''/posts/'' @ ident"

definition upvotePost_path :: "string \<Rightarrow> string" where
  "upvotePost_path ident = ''/posts/'' @ ident @ ''/upvote''"

definition downvotePost_path :: "string \<Rightarrow> string" where
  "downvotePost_path ident = ''/posts/'' @ ident @ ''/downvote''"

definition createComment_path :: "string \<Rightarrow> string" where
  "createComment_path postId = ''/posts/'' @ postId @ ''/comments''"

definition getComment_path :: "string \<Rightarrow> string" where
  "getComment_path ident = ''/comments/'' @ ident"

definition deleteComment_path :: "string \<Rightarrow> string" where
  "deleteComment_path ident = ''/comments/'' @ ident"

definition upvoteComment_path :: "string \<Rightarrow> string" where
  "upvoteComment_path ident = ''/comments/'' @ ident @ ''/upvote''"

definition downvoteComment_path :: "string \<Rightarrow> string" where
  "downvoteComment_path ident = ''/comments/'' @ ident @ ''/downvote''"

definition getSubmolt_path :: "string \<Rightarrow> string" where
  "getSubmolt_path name = ''/submolts/'' @ encodeURIComponent name"

definition subscribe_path :: "string \<Rightarrow> string" where
  "subscribe_path name = ''/submolts/'' @ encodeURIComponent name @ ''/subscribe''"

definition unsubscribe_path :: "string \<Rightarrow> string" where
  "unsubscribe_path name = ''/submolts/'' @ encodeURIComponent name @ ''/subscribe''"

text \<open>
  The query of the list methods: a parameter is appended when the option is truthy (given,
  and not the empty string or 0). \<^verbatim>\<open>`${params}`\<close> serialises the pairs as
  \<^verbatim>\<open>application/x-www-form-urlencoded\<close>.
\<close>

record list_options =
  opt_sort :: "string option"
  opt_limit :: "int option"
  opt_offset :: "int option"
  opt_submolt :: "string option"
  opt_timeRange :: "string option"

definition str_param :: "string \<Rightarrow> string option \<Rightarrow> (string \<times> string) list" where
  "str_param name v = (case v of None \<Rightarrow> [] | Some s \<Rightarrow> if s = [] then [] else [(name, s)])"

definition num_param :: "string \<Rightarrow> int option \<Rightarrow> (string \<times> string) list" where
  "num_param name v = (case v of None \<Rightarrow> [] | Some n \<Rightarrow> if n = 0 then [] else [(name, int_str n)])"

definition form_encode :: "string \<Rightarrow> string" where
  "form_encode s =
     concat (map (\<lambda>c. if is_alnum c \<or> c \<in> set [CHR ''*'', CHR ''-'', CHR ''.'', CHR ''_''] then [c]
                       else if c = CHR '' '' then ''+'' else pct c) s)"

definition params_str :: "(string \<times> string) list \<Rightarrow> string" where
  "params_str ps = join_str ''&'' (map (\<lambda>(k, v). form_encode k @ ''='' @ form_encode v) ps)"

definition listPosts_path :: "list_options \<Rightarrow> string" where
  "listPosts_path options =
     ''/posts?'' @ params_str (str_param ''sort'' (opt_sort options) @ num_param ''limit'' (opt_limit options)
        @ num_param ''offset'' (opt_offset options) @ str_param ''submolt'' (opt_submolt options)
        @ str_param ''t'' (opt_timeRange options))"

definition listComments_path :: "string \<Rightarrow> list_options \<Rightarrow> string" where
  "listComments_path postId options =
     ''/posts/'' @ postId @ ''/comments?''
       @ params_str (str_param ''sort'' (opt_sort options) @ num_param ''limit'' (opt_limit options))"

definition getFeed_path :: "list_options \<Rightarrow> string" where
  "getFeed_path options =
     ''/feed?'' @ params_str (str_param ''sort'' (opt_sort options) @ num_param ''limit'' (opt_limit options)
        @ num_param ''offset'' (opt_offset options))"

definition listSubmolts_path :: "list_options \<Rightarrow> string" where
  "listSubmolts_path options =
     ''/submolts?'' @ params_str (str_param ''sort'' (opt_sort options) @ num_param ''limit'' (opt_limit options))"

definition getSubmoltFeed_path :: "string \<Rightarrow> list_options \<Rightarrow> string" where
  "getSubmoltFeed_path name options =
     ''/submolts/'' @ encodeURIComponent name @ ''/feed?''
       @ params_str (str_param ''sort'' (opt_sort options) @ num_param ''limit'' (opt_limit options))"

subsection \<open>List methods\<close>

text \<open>\<^verbatim>\<open>v || []\<close>\<close>

definition or_empty :: "json option \<Rightarrow> json" where
  "or_empty v = (case v of None \<Rightarrow> JArr [] | Some j \<Rightarrow> if truthy (Some j) then j else JArr [])"

text \<open>\<^verbatim>\<open>result.data || result.k || []\<close>\<close>

definition data_or :: "json \<Rightarrow> string \<Rightarrow> js_error + json" where
  "data_or result k =
     bindE (get_prop (Some result) ''data'') (\<lambda>d.
       if truthy d then Inr (or_empty d)
       else bindE (get_prop (Some result) k) (\<lambda>v. Inr (or_empty v)))"

definition listPosts :: "client \<Rightarrow> list_options \<Rightarrow> fetch_outcome \<Rightarrow> (js_error + json) \<times> client" where
  "listPosts c options fr =
     (case request c ''GET'' (listPosts_path options) fr of
        (Inl e, c') \<Rightarrow> (Inl e, c')
      | (Inr result, c') \<Rightarrow> (data_or result ''posts'', c'))"

definition listComments ::
  "client \<Rightarrow> string \<Rightarrow> list_options \<Rightarrow> fetch_outcome \<Rightarrow> (js_error + json) \<times> client" where
  "listComments c postId options fr =
     (case request c ''GET'' (listComments_path postId options) fr of
        (Inl e, c') \<Rightarrow> (Inl e, c')
      | (Inr result, c') \<Rightarrow>
          (bindE (get_prop (Some result) ''comments'') (\<lambda>v. Inr (or_empty v)), c'))"

definition getFeed :: "client \<Rightarrow> list_options \<Rightarrow> fetch_outcome \<Rightarrow> (js_error + json) \<times> client" where
  "getFeed c options fr =
     (case request c ''GET'' (getFeed_path options) fr of
        (Inl e, c') \<Rightarrow> (Inl e, c')
      | (Inr result, c') \<Rightarrow> (data_or result ''posts'', c'))"

definition listSubmolts :: "client \<Rightarrow> list_options \<Rightarrow> fetch_outcome \<Rightarrow> (js_error + json) \<times> client" where
  "listSubmolts c options fr =
     (case request c ''GET'' (listSubmolts_path options) fr of
        (Inl e, c') \<Rightarrow> (Inl e, c')
      | (Inr result, c') \<Rightarrow> (data_or result ''submolts'', c'))"

definition getSubmoltFeed ::
  "client \<Rightarrow> string \<Rightarrow> list_options \<Rightarrow> fetch_outcome \<Rightarrow> (js_error + json) \<times> client" where
  "getSubmoltFeed c name options fr =
     (case request c ''GET'' (getSubmoltFeed_path name options) fr of
        (Inl e, c') \<Rightarrow> (Inl e, c')
      | (Inr result, c') \<Rightarrow> (data_or result ''posts'', c'))"

section \<open>The skill's helpers: \<^verbatim>\<open>index.js\<close>\<close>

subsection \<open>Files\<close>

text \<open>
  A file holds text that is JSON or is not; the file system maps a path to the file there,
  if there is one. Directories, permissions and failing writes are not modelled:
  \<^verbatim>\<open>mkdirSync\<close> and \<^verbatim>\<open>writeFileSync\<close> succeed. \<^verbatim>\<open>JSON.parse(JSON.stringify(v))\<close> is \<open>v\<close> on
  the values of type \<open>json\<close>.
\<close>

datatype file_content = NotJson | Json json

type_synonym filesystem = "string \<Rightarrow> file_content option"

text \<open>\<^verbatim>\<open>path.join(os.homedir(), '.config/moltbook/credentials.json')\<close>, for a home directory written
  without a final slash.\<close>

definition credPath :: "string \<Rightarrow> string" where
  "credPath home = home @ ''/.config/moltbook/credentials.json''"

subsection \<open>Credentials\<close>

text \<open>
  An object the code builds is an association list whose values may be \<^verbatim>\<open>undefined\<close>.
  \<open>obj_prop\<close> reads a property. \<open>own_props\<close> lists what \<^verbatim>\<open>...raw\<close> spreads: the entries of an
  object, the elements of an array and the characters of a string under their indices,
  nothing for the other values. Spreading over earlier properties is \<open>AList.merge\<close>.
\<close>

type_synonym js_object = "(string \<times> json option) list"

definition obj_prop :: "js_object \<Rightarrow> string \<Rightarrow> json option" where
  "obj_prop obj k = (case map_of obj k of None \<Rightarrow> None | Some v \<Rightarrow> v)"

definition own_props :: "json \<Rightarrow> js_object" where
  "own_props v =
     (case v of
        JObj kvs \<Rightarrow> map (\<lambda>(k, x). (k, Some x)) kvs
      | JArr xs \<Rightarrow> zip (map nat_str [0..<length xs]) (map Some xs)
      | JStr s \<Rightarrow> zip (map nat_str [0..<length s]) (map (\<lambda>c. Some (JStr [c])) s)
      | _ \<Rightarrow> [])"

definition credentials_not_found :: js_error where
  "credentials_not_found =
     \<lparr>err_class = Error,
      message = ''Moltbook credentials not found. ''
                @ ''Run registration first or create ~/.config/moltbook/credentials.json'',
      props = []\<rparr>"

definition loadCredentials :: "string \<Rightarrow> filesystem \<Rightarrow> js_error + js_object" where
  "loadCredentials home fs =
     (case fs (credPath home) of
        None \<Rightarrow> Inl credentials_not_found
      | Some NotJson \<Rightarrow> Inl (syntax_error ''Unexpected token in JSON'')
      | Some (Json raw) \<Rightarrow>
          bindE (get_prop (Some raw) ''apiKey'') (\<lambda>apiKey.
          bindE (get_prop (Some raw) ''api_key'') (\<lambda>api_key.
          bindE (get_prop (Some raw) ''handle'') (\<lambda>handle.
          bindE (get_prop (Some raw) ''agent_name'') (\<lambda>agent_name.
          bindE (get_prop (Some raw) ''profileUrl'') (\<lambda>profileUrl.
          bindE (get_prop (Some raw) ''profile_url'') (\<lambda>profile_url.
          bindE (get_prop (Some raw) ''verificationCode'') (\<lambda>verificationCode.
          bindE (get_prop (Some raw) ''verification_code'') (\<lambda>verification_code.
          bindE (get_prop (Some raw) ''createdAt'') (\<lambda>createdAt.
          bindE (get_prop (Some raw) ''created_at'') (\<lambda>created_at.
            Inr (AList.merge
                   [(''apiKey'', js_or apiKey api_key),
                    (''handle'', js_or handle agent_name),
                    (''profileUrl'', js_or profileUrl profile_url),
                    (''verificationCode'', js_or verificationCode verification_code),
                    (''createdAt'', js_or createdAt created_at)]
                   (own_props raw)))))))))))))"



subsection \<open>Feed filter\<close>

text \<open>
  The options of \<^verbatim>\<open>getRelevantPosts\<close>: numbers are integers and keywords are strings; a field
  that is \<open>None\<close> takes the default of the destructuring pattern.
\<close>

record relevant_options =
  rel_sort :: "string option"
  rel_limit :: "int option"
  rel_minScore :: "int option"
  rel_maxComments :: "int option"
  rel_keywords :: "string list option"
  rel_excludeKeywords :: "string list option"

definition the_sort :: "relevant_options \<Rightarrow> string" where
  "the_sort options = (case rel_sort options of None \<Rightarrow> ''hot'' | Some s \<Rightarrow> s)"

definition the_limit :: "relevant_options \<Rightarrow> int" where
  "the_limit options = (case rel_limit options of None \<Rightarrow> 20 | Some n \<Rightarrow> n)"

definition the_minScore :: "relevant_options \<Rightarrow> int" where
  "the_minScore options = (case rel_minScore options of None \<Rightarrow> 3 | Some n \<Rightarrow> n)"

definition the_maxComments :: "relevant_options \<Rightarrow> int" where
  "the_maxComments options = (case rel_maxComments options of None \<Rightarrow> 50 | Some n \<Rightarrow> n)"

definition the_keywords :: "relevant_options \<Rightarrow> string list" where
  "the_keywords options = (case rel_keywords options of None \<Rightarrow> [] | Some ks \<Rightarrow> ks)"

definition the_excludeKeywords :: "relevant_options \<Rightarrow> string list" where
  "the_excludeKeywords options = (case rel_excludeKeywords options of None \<Rightarrow> [] | Some ks \<Rightarrow> ks)"

text \<open>\<^verbatim>\<open>text.includes(kw)\<close>: \<open>kw\<close> occurs in \<open>text\<close> at some position.\<close>

fun str_includes :: "string \<Rightarrow> string \<Rightarrow> bool" where
  "str_includes [] kw = (kw = [])"
| "str_includes (c # cs) kw = (take (length kw) (c # cs) = kw \<or> str_includes cs kw)"

text \<open>
  \<^verbatim>\<open>`${post.title} ${post.content}`.toLowerCase()\<close>, for a post that is any JSON value of the
  feed. JavaScript's \<^verbatim>\<open>toLowerCase\<close> is the parameter \<open>lc\<close> of the filter.
\<close>

definition post_text :: "(string \<Rightarrow> string) \<Rightarrow> json \<Rightarrow> js_error + string" where
  "post_text lc post =
     bindE (get_prop (Some post) ''title'') (\<lambda>title.
     bindE (template_str title) (\<lambda>t.
     bindE (get_prop (Some post) ''content'') (\<lambda>content.
     bindE (template_str content) (\<lambda>c.
       Inr (lc (t @ '' '' @ c))))))"

text \<open>
  The callback of \<^verbatim>\<open>feed.filter\<close>, with its early returns in the order of the source. The text
  of the post is built only where a list of keywords is not empty.
\<close>

definition relevant ::
  "(string \<Rightarrow> string) \<Rightarrow> (string \<Rightarrow> int option) \<Rightarrow> relevant_options \<Rightarrow> json \<Rightarrow> js_error + bool" where
  "relevant lc str_num options post =
     bindE (get_prop (Some post) ''score'') (\<lambda>score.
     bindE (js_lt str_num score (the_minScore options)) (\<lambda>low.
       if low then Inr False
       else
     bindE (get_prop (Some post) ''commentCount'') (\<lambda>commentCount.
     bindE (js_gt str_num commentCount (the_maxComments options)) (\<lambda>crowded.
       if crowded then Inr False
       else
     bindE (if the_keywords options \<noteq> []
            then bindE (post_text lc post) (\<lambda>text.
                   Inr (\<not> list_ex (\<lambda>kw. str_includes text (lc kw)) (the_keywords options)))
            else Inr False) (\<lambda>noKeyword.
       if noKeyword then Inr False
       else
     bindE (if the_excludeKeywords options \<noteq> []
            then bindE (post_text lc post) (\<lambda>text.
                   Inr (list_ex (\<lambda>kw. str_includes text (lc kw)) (the_excludeKeywords options)))
            else Inr False) (\<lambda>hasExcluded.
       if hasExcluded then Inr False
       else Inr True))))))"

text \<open>\<^verbatim>\<open>xs.filter(f)\<close> for a callback that may throw: the first throw ends the call.\<close>

fun filterE :: "('a \<Rightarrow> 'e + bool) \<Rightarrow> 'a list \<Rightarrow> 'e + 'a list" where
  "filterE f [] = Inr []"
| "filterE f (x # xs) =
     (case f x of
        Inl e \<Rightarrow> Inl e
      | Inr keep \<Rightarrow>
          (case filterE f xs of
             Inl e \<Rightarrow> Inl e
           | Inr rest \<Rightarrow> Inr (if keep then x # rest else rest)))"

text \<open>
  \<^verbatim>\<open>getRelevantPosts(client, options)\<close>: \<^verbatim>\<open>client.feed.get({ sort, limit })\<close> is \<open>getFeed\<close>, and
  \<^verbatim>\<open>feed.filter\<close> is a function only when the feed is an array.
\<close>

definition getRelevantPosts ::
  "(string \<Rightarrow> string) \<Rightarrow> (string \<Rightarrow> int option) \<Rightarrow> client \<Rightarrow> relevant_options \<Rightarrow> fetch_outcome
     \<Rightarrow> (js_error + json list) \<times> client" where
  "getRelevantPosts lc str_num c options fr =
     (case getFeed c \<lparr>opt_sort = Some (the_sort options), opt_limit = Some (the_limit options),
                       opt_offset = None, opt_submolt = None, opt_timeRange = None\<rparr> fr of
        (Inl e, c') \<Rightarrow> (Inl e, c')
      | (Inr feed, c') \<Rightarrow>
          (case feed of
             JArr posts \<Rightarrow> (filterE (relevant lc str_num options) posts, c')
           | _ \<Rightarrow> (Inl (type_error ''feed.filter is not a function''), c')))"

subsection \<open>Heartbeat\<close>

definition loadHeartbeatState :: "string \<Rightarrow> filesystem \<Rightarrow> js_error + json" where
  "loadHeartbeatState stateFile fs =
     (case fs stateFile of
        None \<Rightarrow> Inr (JObj [(''lastMoltbookCheck'', JNum 0)])
      | Some NotJson \<Rightarrow> Inl (syntax_error ''Unexpected token in JSON'')
      | Some (Json j) \<Rightarrow> Inr j)"

definition saveHeartbeatState :: "json \<Rightarrow> string \<Rightarrow> filesystem \<Rightarrow> filesystem" where
  "saveHeartbeatState state stateFile fs = fs(stateFile \<mapsto> Json state)"

text \<open>\<^verbatim>\<open>Math.floor(Date.now() / 1000)\<close>, for the clock's milliseconds.\<close>

definition epoch_seconds :: "int \<Rightarrow> int" where
  "epoch_seconds now_ms = now_ms div 1000"

text \<open>\<^verbatim>\<open>shouldCheckMoltbook(intervalHours, stateFile)\<close> at clock \<open>now_ms\<close>. A comparison with
  \<^verbatim>\<open>NaN\<close> is false.\<close>

definition shouldCheckMoltbook ::
  "(string \<Rightarrow> int option) \<Rightarrow> int \<Rightarrow> string \<Rightarrow> filesystem \<Rightarrow> int \<Rightarrow> js_error + bool" where
  "shouldCheckMoltbook str_num intervalHours stateFile fs now_ms =
     bindE (loadHeartbeatState stateFile fs) (\<lambda>state.
     bindE (get_prop (Some state) ''lastMoltbookCheck'') (\<lambda>last.
     bindE (to_number str_num (js_or last (Some (JNum 0)))) (\<lambda>n.
       let now = epoch_seconds now_ms;
           elapsed = map_option (\<lambda>l. now - l) n;
           threshold = intervalHours * 3600
       in Inr (case elapsed of None \<Rightarrow> False | Some e \<Rightarrow> e \<ge> threshold))))"

text \<open>
  \<^verbatim>\<open>state.lastMoltbookCheck = v\<close>, as \<^verbatim>\<open>JSON.stringify(state)\<close> then sees the state: on an object
  the property is set; on \<^verbatim>\<open>null\<close> the assignment throws; a property put on an array is not
  serialised, and on a number, string or boolean the assignment does nothing.
\<close>

definition set_prop :: "json \<Rightarrow> string \<Rightarrow> json \<Rightarrow> js_error + json" where
  "set_prop state k v =
     (case state of
        JNull \<Rightarrow> Inl (type_error (''Cannot set properties of null (setting '' @ quoted k @ '')''))
      | JObj kvs \<Rightarrow> Inr (JObj (AList.update k v kvs))
      | _ \<Rightarrow> Inr state)"

definition updateMoltbookCheckTime :: "string \<Rightarrow> filesystem \<Rightarrow> int \<Rightarrow> js_error + filesystem" where
  "updateMoltbookCheckTime stateFile fs now_ms =
     bindE (loadHeartbeatState stateFile fs) (\<lambda>state.
     bindE (set_prop state ''lastMoltbookCheck'' (JNum (epoch_seconds now_ms))) (\<lambda>state'.
       Inr (saveHeartbeatState state' stateFile fs)))"

section \<open>Example data\<close>

definition client0 :: client where
  "client0 = new_client \<lparr>opt_apiKey = Some (JStr ''moltbook_sk_test''), opt_baseUrl = None\<rparr>"

definition client_stale :: client where
  "client_stale =
     \<lparr>apiKey = Some (JStr ''moltbook_sk_test''), baseUrl = BASE_URL,
      rateLimitInfo = Some \<lparr>limit = Some 100, remaining = Some 7, reset = Some 5,
                             resetAt = Some 5000\<rparr>\<rparr>"

definition resp_401 :: response where
  "resp_401 = \<lparr>status = 401, statusText = ''Unauthorized'', headers = [], body = None\<rparr>"

definition resp_404 :: response where
  "resp_404 = \<lparr>status = 404, statusText = ''Not Found'', headers = [], body = None\<rparr>"

definition resp_429 :: response where
  "resp_429 =
     \<lparr>status = 429, statusText = ''Too Many Requests'', headers = [],
      body = Some (JObj [(''message'', JStr ''slow down''), (''retryAfter'', JNum 30)])\<rparr>"

definition resp_500_null :: response where
  "resp_500_null =
     \<lparr>status = 500, statusText = ''Internal Server Error'', headers = [], body = Some JNull\<rparr>"

definition resp_500_unprintable :: response where
  "resp_500_unprintable =
     \<lparr>status = 500, statusText = ''Internal Server Error'', headers = [],
      body = Some (JObj [(''message'', JObj [(''toString'', JNum 1)])])\<rparr>"

definition resp_429_limited :: response where
  "resp_429_limited =
     \<lparr>status = 429, statusText = ''Too Many Requests'',
      headers = [(''x-ratelimit-limit'', ''100''), (''x-ratelimit-remaining'', ''0''),
                 (''x-ratelimit-reset'', ''1700000000'')],
      body = Some (JObj [(''message'', JStr ''slow down'')])\<rparr>"

definition resp_200 :: "json \<Rightarrow> response" where
  "resp_200 j = \<lparr>status = 200, statusText = ''OK'', headers = [], body = Some j\<rparr>"

definition no_options :: list_options where
  "no_options =
     \<lparr>opt_sort = None, opt_limit = None, opt_offset = None, opt_submolt = None,
      opt_timeRange = None\<rparr>"

text \<open>
  The examples of the feed filter are ASCII text, on which \<^verbatim>\<open>toLowerCase\<close> maps the letters A
  to Z to a to z and leaves the rest: \<open>ascii_toLowerCase\<close> stands for it there and nowhere
  else. No example reads a string as a number, so \<open>no_str_num\<close> stands for that parameter.
\<close>

definition lower_char :: "char \<Rightarrow> char" where
  "lower_char c =
     (case map_of (zip ''ABCDEFGHIJKLMNOPQRSTUVWXYZ'' ''abcdefghijklmnopqrstuvwxyz'') c of
        None \<Rightarrow> c
      | Some l \<Rightarrow> l)"

definition ascii_toLowerCase :: "string \<Rightarrow> string" where
  "ascii_toLowerCase s = map lower_char s"

definition no_str_num :: "string \<Rightarrow> int option" where
  "no_str_num s = None"

definition security_options :: relevant_options where
  "security_options =
     \<lparr>rel_sort = None, rel_limit = None, rel_minScore = Some 5, rel_maxComments = None,
      rel_keywords = Some [''security''], rel_excludeKeywords = None\<rparr>"

definition strict_options :: relevant_options where
  "strict_options =
     \<lparr>rel_sort = Some ''new'', rel_limit = Some 5, rel_minScore = Some 5, rel_maxComments = Some 10,
      rel_keywords = Some [''Security'', ''agents''], rel_excludeKeywords = Some [''Token'']\<rparr>"

definition openclaw_options :: relevant_options where
  "openclaw_options =
     \<lparr>rel_sort = None, rel_limit = None, rel_minScore = Some 5, rel_maxComments = None,
      rel_keywords = Some [''openclaw''], rel_excludeKeywords = None\<rparr>"

definition min5_options :: relevant_options where
  "min5_options =
     \<lparr>rel_sort = None, rel_limit = None, rel_minScore = Some 5, rel_maxComments = None,
      rel_keywords = None, rel_excludeKeywords = None\<rparr>"

definition mk_post :: "int \<Rightarrow> string \<Rightarrow> string \<Rightarrow> int \<Rightarrow> json" where
  "mk_post s t c n =
     JObj [(''score'', JNum s), (''title'', JStr t), (''content'', JStr c), (''commentCount'', JNum n)]"

definition post_security :: json where
  "post_security = mk_post 10 ''Security talk'' [] 2"

definition post_cats :: json where
  "post_cats = mk_post 10 ''Cats'' [] 2"

definition post_low :: json where
  "post_low = mk_post 4 ''Security basics'' [] 2"

definition post_crowded :: json where
  "post_crowded = mk_post 10 ''Agents at work'' [] 11"

definition post_token :: json where
  "post_token = mk_post 10 ''Security'' ''buy this token'' 2"

definition post_agents :: json where
  "post_agents = mk_post 5 ''Notes'' ''on AGENTS and tools'' 10"

definition post_open_claw :: json where
  "post_open_claw = mk_post 10 ''open'' ''claw'' 2"

definition post_no_score :: json where
  "post_no_score =
     JObj [(''title'', JStr ''Cats''), (''content'', JStr []), (''upvotes'', JNum 1),
           (''downvotes'', JNum 0), (''comment_count'', JNum 2)]"

definition feed_of :: "json list \<Rightarrow> fetch_outcome" where
  "feed_of posts = Response (resp_200 (JObj [(''posts'', JArr posts)]))"

text \<open>The number and the string under a key of an object, for naming the fields of the
  example posts.\<close>

definition num_at :: "string \<Rightarrow> json \<Rightarrow> int" where
  "num_at k p = (case get_prop (Some p) k of Inr (Some (JNum n)) \<Rightarrow> n | _ \<Rightarrow> 0)"

definition str_at :: "string \<Rightarrow> json \<Rightarrow> string" where
  "str_at k p = (case get_prop (Some p) k of Inr (Some (JStr s)) \<Rightarrow> s | _ \<Rightarrow> [])"

definition home0 :: string where
  "home0 = ''/home/agent''"

definition fs_snake :: filesystem where
  "fs_snake = Map.empty(credPath home0 \<mapsto> Json (JObj [(''api_key'', JStr ''x'')]))"

definition fs_both :: filesystem where
  "fs_both =
     Map.empty(credPath home0 \<mapsto> Json (JObj [(''api_key'', JStr ''x''), (''apiKey'', JStr ''y'')]))"

definition state_path :: string where
  "state_path = ''memory/heartbeat-state.json''"

definition fs_checked :: filesystem where
  "fs_checked = Map.empty(state_path \<mapsto> Json (JObj [(''lastMoltbookCheck'', JNum 1700000000)]))"

definition fs_rewritten :: filesystem where
  "fs_rewritten = Map.empty(state_path \<mapsto> Json (JObj [(''lastMoltbookCheck'', JNum 1699989200)]))"

definition fs_state :: filesystem where
  "fs_state =
     Map.empty(state_path \<mapsto>
       Json (JObj [(''lastChatCheck'', JNum 1699990000), (''lastMoltbookCheck'', JNum 1699000000),
                   (''notes'', JArr [JStr ''a''])]))"

section \<open>Responses and errors\<close>

lemma parseInt_0: "parseInt ''0'' = Some 0"
  by (simp add: parseInt_def digit_val_def is_space_def)

lemma header_or_0_absent: "map_of (headers r) name = None \<Longrightarrow> header_or_0 r name = ''0''"
  by (simp add: header_or_0_def)

lemma to_string_error:
  "to_string v = Inl e \<Longrightarrow> err_class e = TypeError \<and> props e = []"
  "elem_strings xs = Inl e \<Longrightarrow> err_class e = TypeError \<and> props e = []"
  by (induction v and xs arbitrary: e and e rule: to_string_elem_strings.induct)
    (auto simp: type_error_def split: sum.splits if_splits)

lemma get_prop_error: "get_prop v k = Inl e \<Longrightarrow> err_class e = TypeError \<and> props e = []"
  by (auto simp: get_prop_def type_error_def split: option.splits json.splits)

text \<open>A value that is no object and no array always has a string.\<close>

lemma to_string_primitive:
  "to_string JNull = Inr ''null''"
  "to_string (JBool b) = Inr (if b then ''true'' else ''false'')"
  "to_string (JNum n) = Inr (int_str n)"
  "to_string (JStr s) = Inr s"
  by simp_all

lemma rateLimitInfo_request:
  "rateLimitInfo (snd (request c m p (Response r))) = Some (snapshot_of r)"
  by (simp add: request_def Let_def split: option.splits sum.splits)

lemma request_not_ok_throws:
  "\<not> ok r \<Longrightarrow> \<exists>e. fst (request c m p (Response r)) = Inl e"
  by (simp add: request_def Let_def split: option.splits sum.splits)

lemma request_ok:
  "ok r \<Longrightarrow> body r = Some j \<Longrightarrow>
   request c m p (Response r) = (Inr j, c\<lparr>rateLimitInfo := Some (snapshot_of r)\<rparr>)"
  by (simp add: request_def Let_def)

text \<open>Whatever \<^verbatim>\<open>request\<close> throws with class \<^verbatim>\<open>Error\<close> was thrown for a response outside
  200..299 and carries its status and its body.\<close>

lemma request_Error_props:
  assumes "fst (request c m p fr) = Inl e" and "err_class e = Error"
  shows "\<exists>r. fr = Response r \<and> \<not> ok r
           \<and> props e = [(''statusCode'', JNum (status r)),
                         (''response'', case body r of
                                          None \<Rightarrow> JObj [(''message'', JStr (statusText r))]
                                        | Some j \<Rightarrow> j)]"
proof (cases fr)
  case NetworkFailure
  with assms show ?thesis by (auto simp: request_def type_error_def)
next
  case (Response r)
  show ?thesis
  proof (cases "ok r")
    case True
    with assms Response show ?thesis
      by (auto simp: request_def Let_def syntax_error_def split: option.splits)
  next
    case False
    with assms Response show ?thesis
      by (auto simp: request_def Let_def split: sum.splits option.splits
          dest: get_prop_error to_string_error(1))
  qed
qed

text \<open>The thrown error is of class \<^verbatim>\<open>Error\<close> when the body is not \<^verbatim>\<open>null\<close> and its message, if
  it has one, has a string.\<close>

lemma request_not_ok_Error:
  assumes "\<not> ok r" and "body r \<noteq> Some JNull"
    and "\<forall>kvs v. body r = Some (JObj kvs) \<and> map_of kvs ''message'' = Some v
                  \<longrightarrow> (\<exists>s. to_string v = Inr s)"
  shows "\<exists>e. fst (request c m p (Response r)) = Inl e \<and> err_class e = Error"
proof (cases "body r")
  case None
  with assms(1) show ?thesis
    by (simp add: request_def Let_def get_prop_def js_or_def)
next
  case (Some j)
  with assms(2) have nn: "j \<noteq> JNull" by simp
  show ?thesis
  proof (cases j)
    case (JObj kvs)
    show ?thesis
    proof (cases "map_of kvs ''message''")
      case None
      with Some JObj assms(1) show ?thesis
        by (simp add: request_def Let_def get_prop_def js_or_def)
    next
      case (Some v)
      with assms(3) \<open>body r = Some j\<close> JObj obtain s where "to_string v = Inr s" by blast
      with Some \<open>body r = Some j\<close> JObj assms(1) show ?thesis
        by (simp add: request_def Let_def get_prop_def js_or_def)
    qed
  qed (use Some nn assms(1) in \<open>simp_all add: request_def Let_def get_prop_def js_or_def\<close>)
qed

text \<open>The two replies outside 200..299 for which the thrown error is a TypeError with no
  \<^verbatim>\<open>statusCode\<close>: a body \<^verbatim>\<open>null\<close>, and a message that has no string.\<close>

lemma request_error_without_status:
  "fst (request client0 ''GET'' ''/agents/me'' (Response resp_500_null)) =
     Inl \<lparr>err_class = TypeError,
          message = ''Cannot read properties of null (reading '' @ quoted ''message'' @ '')'',
          props = []\<rparr>"
  "fst (request client0 ''GET'' ''/agents/me'' (Response resp_500_unprintable)) =
     Inl \<lparr>err_class = TypeError, message = ''Cannot convert object to primitive value'',
          props = []\<rparr>"
  by (simp_all add: request_def resp_500_null_def resp_500_unprintable_def ok_def get_prop_def
      js_or_def type_error_def Let_def)

lemma request_no_response: "request c m p NetworkFailure = (Inl (type_error ''fetch failed''), c)"
  by (simp add: request_def)

lemma isRateLimited_iff:
  "isRateLimited c = Some True \<longleftrightarrow> (\<exists>i. getRateLimitInfo c = Some i \<and> remaining i = Some 0)"
  by (auto simp: isRateLimited_def getRateLimitInfo_def split: option.splits)

text \<open>
  C1, as the code has it. For every response outside 200..299, \<^verbatim>\<open>request\<close> throws. Every
  error of class \<^verbatim>\<open>Error\<close> it throws has the HTTP status as \<^verbatim>\<open>statusCode\<close> and, as \<^verbatim>\<open>response\<close>,
  the parsed body, or \<^verbatim>\<open>{message: statusText}\<close> when the body is not JSON. The error is of that
  one class \<^verbatim>\<open>Error\<close> whenever the body is not the JSON value \<^verbatim>\<open>null\<close> and its \<^verbatim>\<open>message\<close>, if it
  has one, converts to a string. A caller tells a 401 from a 404 by \<^verbatim>\<open>statusCode\<close>, and finds
  the 30 of the 429 example at \<^verbatim>\<open>err.response.retryAfter\<close>.
\<close>

theorem request_error_carries_status:
  assumes "\<not> ok r"
  shows "\<exists>e. fst (request c m p (Response r)) = Inl e
           \<and> (err_class e = Error \<longrightarrow>
                error_prop e ''statusCode'' = Some (JNum (status r))
                \<and> error_prop e ''response'' =
                    Some (case body r of
                            None \<Rightarrow> JObj [(''message'', JStr (statusText r))]
                          | Some j \<Rightarrow> j))
           \<and> (body r \<noteq> Some JNull
                \<and> (\<forall>kvs v. body r = Some (JObj kvs) \<and> map_of kvs ''message'' = Some v
                             \<longrightarrow> (\<exists>s. to_string v = Inr s))
                \<longrightarrow> err_class e = Error)"
proof -
  from request_not_ok_throws [OF assms] obtain e where
    e: "fst (request c m p (Response r)) = Inl e" by blast
  have "error_prop e ''statusCode'' = Some (JNum (status r))
        \<and> error_prop e ''response'' =
            Some (case body r of
                    None \<Rightarrow> JObj [(''message'', JStr (statusText r))]
                  | Some j \<Rightarrow> j)"
    if "err_class e = Error"
    using request_Error_props [OF e that] by (auto simp: error_prop_def)
  moreover have "err_class e = Error"
    if "body r \<noteq> Some JNull
        \<and> (\<forall>kvs v. body r = Some (JObj kvs) \<and> map_of kvs ''message'' = Some v
                     \<longrightarrow> (\<exists>s. to_string v = Inr s))"
    using request_not_ok_Error [OF assms, of c m p] that e by auto
  ultimately show ?thesis using e by blast
qed

theorem request_error_carries_status_witness:
  "\<not> ok resp_429 \<and> body resp_429 \<noteq> Some JNull
   \<and> to_string (JStr ''slow down'') = Inr ''slow down''
   \<and> (\<exists>e. fst (request client0 ''POST'' ''/posts'' (Response resp_429)) = Inl e
          \<and> err_class e = Error
          \<and> error_prop e ''statusCode'' = Some (JNum 429)
          \<and> error_prop e ''response'' =
               Some (JObj [(''message'', JStr ''slow down''), (''retryAfter'', JNum 30)])
          \<and> get_prop (error_prop e ''response'') ''retryAfter'' = Inr (Some (JNum 30)))"
proof -
  have h1: "\<not> ok resp_429" by (simp add: ok_def resp_429_def)
  have h2: "body resp_429 \<noteq> Some JNull" by (simp add: resp_429_def)
  have h3: "\<forall>kvs v. body resp_429 = Some (JObj kvs) \<and> map_of kvs ''message'' = Some v
                     \<longrightarrow> (\<exists>s. to_string v = Inr s)"
    by (auto simp: resp_429_def)
  from request_error_carries_status [OF h1, of client0 "''POST''" "''/posts''"] h2 h3
  obtain e where e: "fst (request client0 ''POST'' ''/posts'' (Response resp_429)) = Inl e"
    "err_class e = Error" "error_prop e ''statusCode'' = Some (JNum (status resp_429))"
    "error_prop e ''response'' =
       Some (case body resp_429 of
               None \<Rightarrow> JObj [(''message'', JStr (statusText resp_429))]
             | Some j \<Rightarrow> j)"
    by blast
  from e(3) have s: "error_prop e ''statusCode'' = Some (JNum 429)"
    by (simp add: resp_429_def)
  from e(4) have r: "error_prop e ''response'' =
      Some (JObj [(''message'', JStr ''slow down''), (''retryAfter'', JNum 30)])"
    by (simp add: resp_429_def)
  have "get_prop (error_prop e ''response'') ''retryAfter'' = Inr (Some (JNum 30))"
    by (simp add: r get_prop_def)
  with h1 h2 e(1,2) s r show ?thesis by auto
qed

text \<open>
  C1, as the claim states it, fails: the errors thrown for a 401 and for a 404 are both of
  class \<^verbatim>\<open>Error\<close>, so their type does not tell them apart, and the error thrown for the 429
  example has no property \<^verbatim>\<open>retryAfter\<close> (\<^verbatim>\<open>err.retryAfter\<close> is \<^verbatim>\<open>undefined\<close>, not 30).
\<close>

theorem request_error_kinds_counterexample:
  "fst (request client0 ''GET'' ''/agents/me'' (Response resp_401)) =
     Inl \<lparr>err_class = Error, message = ''Unauthorized'',
          props = [(''statusCode'', JNum 401),
                   (''response'', JObj [(''message'', JStr ''Unauthorized'')])]\<rparr>
   \<and> fst (request client0 ''GET'' ''/agents/me'' (Response resp_404)) =
     Inl \<lparr>err_class = Error, message = ''Not Found'',
          props = [(''statusCode'', JNum 404),
                   (''response'', JObj [(''message'', JStr ''Not Found'')])]\<rparr>
   \<and> fst (request client0 ''GET'' ''/agents/me'' (Response resp_429)) =
     Inl \<lparr>err_class = Error, message = ''slow down'',
          props = [(''statusCode'', JNum 429),
                   (''response'', JObj [(''message'', JStr ''slow down''), (''retryAfter'', JNum 30)])]\<rparr>
   \<and> error_prop \<lparr>err_class = Error, message = ''slow down'',
          props = [(''statusCode'', JNum 429),
                   (''response'', JObj [(''message'', JStr ''slow down''), (''retryAfter'', JNum 30)])]\<rparr>
        ''retryAfter'' = None"
  by (simp add: request_def resp_401_def resp_404_def resp_429_def ok_def get_prop_def js_or_def
      error_prop_def Let_def)

section \<open>Rate-limit snapshot\<close>

text \<open>
  C6. After every response, whatever its status, the snapshot of the client is the four
  fields read from the \<^verbatim>\<open>x-ratelimit-*\<close> headers of that response, whatever the snapshot was
  before; this holds too when the status is outside 200..299 and the call ends in a thrown
  error. \<^verbatim>\<open>getRateLimitInfo\<close> returns the snapshot, and \<^verbatim>\<open>isRateLimited\<close> returns \<^verbatim>\<open>true\<close> exactly
  when there is a snapshot whose \<^verbatim>\<open>remaining\<close> is 0.
\<close>

theorem request_overwrites_snapshot:
  "getRateLimitInfo (snd (request c m p (Response r))) =
     Some \<lparr>limit = parseInt (header_or_0 r ''x-ratelimit-limit''),
           remaining = parseInt (header_or_0 r ''x-ratelimit-remaining''),
           reset = parseInt (header_or_0 r ''x-ratelimit-reset''),
           resetAt = new_Date (map_option (\<lambda>t. t * 1000)
                       (parseInt (header_or_0 r ''x-ratelimit-reset'')))\<rparr>
   \<and> (\<not> ok r \<longrightarrow> (\<exists>e. fst (request c m p (Response r)) = Inl e))
   \<and> (isRateLimited c' = Some True \<longleftrightarrow>
        (\<exists>i. getRateLimitInfo c' = Some i \<and> remaining i = Some 0))"
  using rateLimitInfo_request [of c m p r] request_not_ok_throws [of r c m p]
    isRateLimited_iff [of c']
  by (simp add: getRateLimitInfo_def snapshot_of_def)

theorem request_overwrites_snapshot_witness:
  "\<not> ok resp_429_limited
   \<and> getRateLimitInfo client_stale =
       Some \<lparr>limit = Some 100, remaining = Some 7, reset = Some 5, resetAt = Some 5000\<rparr>
   \<and> getRateLimitInfo (snd (request client_stale ''GET'' ''/feed?'' (Response resp_429_limited))) =
       Some \<lparr>limit = Some 100, remaining = Some 0, reset = Some 1700000000,
             resetAt = Some 1700000000000\<rparr>
   \<and> isRateLimited (snd (request client_stale ''GET'' ''/feed?'' (Response resp_429_limited))) =
       Some True"
  using request_overwrites_snapshot [of client_stale "''GET''" "''/feed?''" resp_429_limited
      "snd (request client_stale ''GET'' ''/feed?'' (Response resp_429_limited))"]
  by (simp add: resp_429_limited_def client_stale_def getRateLimitInfo_def ok_def header_or_0_def
      parseInt_def digit_val_def is_space_def new_Date_def)

text \<open>
  C10. A response without the three \<^verbatim>\<open>x-ratelimit-*\<close> headers leaves a snapshot whose \<^verbatim>\<open>limit\<close>,
  \<^verbatim>\<open>remaining\<close> and \<^verbatim>\<open>reset\<close> are 0, so \<^verbatim>\<open>isRateLimited\<close> returns \<^verbatim>\<open>true\<close> although the server said
  nothing about rate limits. A new client, also after a request that got no response, has
  no snapshot: \<^verbatim>\<open>getRateLimitInfo\<close> returns \<^verbatim>\<open>null\<close> and \<^verbatim>\<open>isRateLimited\<close> returns \<^verbatim>\<open>null\<close>, not \<^verbatim>\<open>true\<close>.
\<close>

theorem missing_headers_read_as_rate_limited:
  assumes "map_of (headers r) ''x-ratelimit-limit'' = None"
    and "map_of (headers r) ''x-ratelimit-remaining'' = None"
    and "map_of (headers r) ''x-ratelimit-reset'' = None"
  shows "(\<exists>i. getRateLimitInfo (snd (request c m p (Response r))) = Some i
            \<and> limit i = Some 0 \<and> remaining i = Some 0 \<and> reset i = Some 0)
         \<and> isRateLimited (snd (request c m p (Response r))) = Some True
         \<and> getRateLimitInfo (new_client options) = None
         \<and> isRateLimited (new_client options) = None
         \<and> isRateLimited (new_client options) \<noteq> Some True
         \<and> getRateLimitInfo (snd (request (new_client options) m p NetworkFailure)) = None"
  using assms
  by (simp add: getRateLimitInfo_def isRateLimited_def rateLimitInfo_request snapshot_of_def
      header_or_0_absent parseInt_0 new_client_def request_no_response)

theorem missing_headers_read_as_rate_limited_witness:
  "map_of (headers (resp_200 (JObj [(''agent'', JObj [(''name'', JStr ''a'')])]))) ''x-ratelimit-limit'' = None
   \<and> map_of (headers (resp_200 (JObj [(''agent'', JObj [(''name'', JStr ''a'')])]))) ''x-ratelimit-remaining'' = None
   \<and> map_of (headers (resp_200 (JObj [(''agent'', JObj [(''name'', JStr ''a'')])]))) ''x-ratelimit-reset'' = None
   \<and> isRateLimited client0 = None
   \<and> isRateLimited (snd (request client0 ''GET'' ''/agents/me''
        (Response (resp_200 (JObj [(''agent'', JObj [(''name'', JStr ''a'')])]))))) = Some True"
  using missing_headers_read_as_rate_limited [of
      "resp_200 (JObj [(''agent'', JObj [(''name'', JStr ''a'')])])" client0 "''GET''" "''/agents/me''"
      "\<lparr>opt_apiKey = Some (JStr ''moltbook_sk_test''), opt_baseUrl = None\<rparr>"]
  by (simp add: resp_200_def client0_def)

section \<open>Identifiers in paths\<close>

lemma digit_char_alnum: "is_alnum (digit_char n)"
proof -
  have all: "\<forall>m\<in>set [0..<16]. is_alnum (''0123456789ABCDEF'' ! m)"
    by code_simp
  have "n mod 16 \<in> set [0..<16]" by simp
  with all show ?thesis
    unfolding digit_char_def by blast
qed

lemma encodeURIComponent_chars:
  "c \<in> set (encodeURIComponent s) \<Longrightarrow> unreserved c \<or> c = CHR ''%''"
  by (auto simp: encodeURIComponent_def pct_def unreserved_def digit_char_alnum split: if_splits)

text \<open>What \<^verbatim>\<open>encodeURIComponent\<close> returns holds no reserved character: the names of agents and
  submolts cannot leave their path segment.\<close>

lemma encodeURIComponent_no_reserved:
  "set (encodeURIComponent s) \<inter> set ''/?#&=+ :@;,$[]'' = {}"
proof -
  have "\<not> (unreserved c \<or> c = CHR ''%'')" if "c \<in> set ''/?#&=+ :@;,$[]''" for c
    using that by (auto simp: unreserved_def is_alnum_def)
  with encodeURIComponent_chars show ?thesis by blast
qed

text \<open>
  C2. The claim asks that every identifier put into a path segment be percent-encoded. The
  methods that take an agent name or a submolt name do so; the methods that take a post id
  or a comment id put it into the path as it is. For the identifier \<^verbatim>\<open>a b/c\<close>, \<^verbatim>\<open>getPost\<close>,
  \<^verbatim>\<open>createComment\<close> and \<^verbatim>\<open>getComment\<close> request a URL with the space and the slash in it, where
  \<^verbatim>\<open>follow\<close> and \<^verbatim>\<open>getSubmolt\<close> request \<^verbatim>\<open>a%20b%2Fc\<close>.
\<close>

theorem post_id_not_encoded:
  "request_url client0 (getPost_path ''a b/c'') = ''https://www.moltbook.com/api/v1/posts/a b/c''
   \<and> request_url client0 (createComment_path ''a b/c'') =
        ''https://www.moltbook.com/api/v1/posts/a b/c/comments''
   \<and> request_url client0 (getComment_path ''a b/c'') =
        ''https://www.moltbook.com/api/v1/comments/a b/c''
   \<and> request_url client0 (follow_path ''a b/c'') =
        ''https://www.moltbook.com/api/v1/agents/a%20b%2Fc/follow''
   \<and> request_url client0 (getSubmolt_path ''a b/c'') =
        ''https://www.moltbook.com/api/v1/submolts/a%20b%2Fc''"
  by (simp add: request_url_def client0_def new_client_def BASE_URL_def getPost_path_def
      createComment_path_def getComment_path_def follow_path_def getSubmolt_path_def
      encodeURIComponent_def unreserved_def is_alnum_def pct_def digit_char_def)

section \<open>List endpoints\<close>

lemma data_or_data_wins:
  "map_of kvs ''data'' = Some (JArr xs) \<Longrightarrow> data_or (JObj kvs) k = Inr (JArr xs)"
  by (simp add: data_or_def bindE_def get_prop_def or_empty_def)

lemma data_or_default:
  "map_of kvs ''data'' = None \<Longrightarrow> map_of kvs k = None \<Longrightarrow> data_or (JObj kvs) k = Inr (JArr [])"
  by (simp add: data_or_def bindE_def get_prop_def or_empty_def)

text \<open>The four methods that read \<^verbatim>\<open>result.data\<close> first return it when it is an array, whatever
  else the body holds.\<close>

lemma list_methods_data_wins:
  assumes "ok r" and "body r = Some (JObj kvs)" and "map_of kvs ''data'' = Some (JArr xs)"
  shows "fst (listPosts c options (Response r)) = Inr (JArr xs)"
    and "fst (getFeed c options (Response r)) = Inr (JArr xs)"
    and "fst (listSubmolts c options (Response r)) = Inr (JArr xs)"
    and "fst (getSubmoltFeed c name options (Response r)) = Inr (JArr xs)"
  using assms
  by (simp_all add: listPosts_def getFeed_def listSubmolts_def getSubmoltFeed_def request_ok
      data_or_data_wins)

text \<open>
  C3. The claim asks that every list endpoint probe \<^verbatim>\<open>data\<close> first. \<^verbatim>\<open>listPosts\<close>, \<^verbatim>\<open>getFeed\<close>,
  \<^verbatim>\<open>listSubmolts\<close> and \<^verbatim>\<open>getSubmoltFeed\<close> do; \<^verbatim>\<open>listComments\<close> reads \<^verbatim>\<open>comments\<close> only. For a body
  with both \<^verbatim>\<open>data\<close> and \<^verbatim>\<open>comments\<close> it returns \<^verbatim>\<open>comments\<close>, and for a body with \<^verbatim>\<open>data\<close> alone it
  returns the empty sequence, where \<^verbatim>\<open>listPosts\<close> returns \<^verbatim>\<open>data\<close>.
\<close>

theorem listComments_skips_data:
  "fst (listComments client0 ''p1'' no_options
          (Response (resp_200 (JObj [(''data'', JArr [JNum 1]), (''comments'', JArr [JNum 2])])))) =
     Inr (JArr [JNum 2])
   \<and> fst (listComments client0 ''p1'' no_options
          (Response (resp_200 (JObj [(''data'', JArr [JNum 1])])))) = Inr (JArr [])
   \<and> fst (listPosts client0 no_options
          (Response (resp_200 (JObj [(''data'', JArr [JNum 1]), (''posts'', JArr [JNum 2])])))) =
     Inr (JArr [JNum 1])"
  by (simp add: listComments_def listPosts_def request_ok resp_200_def ok_def data_or_def
      bindE_def get_prop_def or_empty_def)

section \<open>Credentials\<close>



lemma map_of_own_props: "map_of (own_props (JObj kvs)) k = map_option Some (map_of kvs k)"
  by (induction kvs) (auto simp: own_props_def)

lemma obj_prop_merge:
  "obj_prop (AList.merge qs (own_props (JObj kvs))) k =
     (case map_of kvs k of Some v \<Rightarrow> Some v | None \<Rightarrow> obj_prop qs k)"
  by (simp add: obj_prop_def merge_conv' map_of_own_props map_add_def split: option.splits)

lemma js_or_undefined: "js_or None b = b"
  by (simp add: js_or_def)

lemma loadCredentials_object:
  "fs (credPath home) = Some (Json (JObj kvs)) \<Longrightarrow>
   loadCredentials home fs =
     Inr (AList.merge
            [(''apiKey'', js_or (map_of kvs ''apiKey'') (map_of kvs ''api_key'')),
             (''handle'', js_or (map_of kvs ''handle'') (map_of kvs ''agent_name'')),
             (''profileUrl'', js_or (map_of kvs ''profileUrl'') (map_of kvs ''profile_url'')),
             (''verificationCode'',
                js_or (map_of kvs ''verificationCode'') (map_of kvs ''verification_code'')),
             (''createdAt'', js_or (map_of kvs ''createdAt'') (map_of kvs ''created_at''))]
            (own_props (JObj kvs)))"
  by (simp add: loadCredentials_def bindE_def get_prop_def)

text \<open>
  C7. For a credentials file that holds a JSON object, \<^verbatim>\<open>loadCredentials\<close> returns an object
  whose camelCase property is the camelCase field of the file when the file has it, and
  the snake_case field otherwise: \<^verbatim>\<open>api_key\<close> for \<^verbatim>\<open>apiKey\<close>, \<^verbatim>\<open>profile_url\<close> for \<^verbatim>\<open>profileUrl\<close>,
  \<^verbatim>\<open>verification_code\<close> for \<^verbatim>\<open>verificationCode\<close>, \<^verbatim>\<open>created_at\<close> for \<^verbatim>\<open>createdAt\<close> (and \<^verbatim>\<open>agent_name\<close>
  for \<^verbatim>\<open>handle\<close>). A file \<^verbatim>\<open>{"api_key":"x"}\<close> gives \<^verbatim>\<open>apiKey === "x"\<close>.
\<close>

theorem loadCredentials_normalizes:
  assumes "fs (credPath home) = Some (Json (JObj kvs))"
  shows "\<exists>creds. loadCredentials home fs = Inr creds
     \<and> obj_prop creds ''apiKey'' =
         (case map_of kvs ''apiKey'' of Some v \<Rightarrow> Some v | None \<Rightarrow> map_of kvs ''api_key'')
     \<and> obj_prop creds ''profileUrl'' =
         (case map_of kvs ''profileUrl'' of Some v \<Rightarrow> Some v | None \<Rightarrow> map_of kvs ''profile_url'')
     \<and> obj_prop creds ''verificationCode'' =
         (case map_of kvs ''verificationCode'' of Some v \<Rightarrow> Some v
          | None \<Rightarrow> map_of kvs ''verification_code'')
     \<and> obj_prop creds ''createdAt'' =
         (case map_of kvs ''createdAt'' of Some v \<Rightarrow> Some v | None \<Rightarrow> map_of kvs ''created_at'')
     \<and> obj_prop creds ''handle'' =
         (case map_of kvs ''handle'' of Some v \<Rightarrow> Some v | None \<Rightarrow> map_of kvs ''agent_name'')"
  using assms loadCredentials_object [of fs home kvs]
  by (simp add: obj_prop_merge split: option.splits) (simp add: obj_prop_def js_or_undefined)

theorem loadCredentials_normalizes_witness:
  "fs_snake (credPath home0) = Some (Json (JObj [(''api_key'', JStr ''x'')]))
   \<and> (\<exists>creds. loadCredentials home0 fs_snake = Inr creds
              \<and> obj_prop creds ''apiKey'' = Some (JStr ''x''))
   \<and> (\<exists>creds. loadCredentials home0 fs_both = Inr creds
              \<and> obj_prop creds ''apiKey'' = Some (JStr ''y''))"
proof -
  have a: "fs_snake (credPath home0) = Some (Json (JObj [(''api_key'', JStr ''x'')]))"
    by (simp add: fs_snake_def)
  have b: "fs_both (credPath home0) =
             Some (Json (JObj [(''api_key'', JStr ''x''), (''apiKey'', JStr ''y'')]))"
    by (simp add: fs_both_def)
  show ?thesis
    using a loadCredentials_normalizes [of fs_snake home0 "[(''api_key'', JStr ''x'')]"]
      loadCredentials_normalizes [of fs_both home0 "[(''api_key'', JStr ''x''), (''apiKey'', JStr ''y'')]"] b
    by auto
qed

section \<open>Feed filter\<close>

text \<open>\<open>str_includes\<close> is containment: the keyword occurs somewhere in the text.\<close>

lemma str_includes_iff: "str_includes t kw \<longleftrightarrow> (\<exists>pre suf. t = pre @ kw @ suf)"
proof (induction t)
  case Nil
  then show ?case by auto
next
  case (Cons c cs)
  show ?case
  proof
    assume "str_includes (c # cs) kw"
    then consider "take (length kw) (c # cs) = kw" | "str_includes cs kw" by auto
    then show "\<exists>pre suf. c # cs = pre @ kw @ suf"
    proof cases
      case 1
      then have "c # cs = [] @ kw @ drop (length kw) (c # cs)"
        by (metis append_Nil append_take_drop_id)
      then show ?thesis by blast
    next
      case 2
      with Cons.IH obtain pre suf where "cs = pre @ kw @ suf" by blast
      then have "c # cs = (c # pre) @ kw @ suf" by simp
      then show ?thesis by blast
    qed
  next
    assume "\<exists>pre suf. c # cs = pre @ kw @ suf"
    then obtain pre suf where eq: "c # cs = pre @ kw @ suf" by blast
    show "str_includes (c # cs) kw"
    proof (cases pre)
      case Nil
      with eq have "take (length kw) (c # cs) = kw" by simp
      then show ?thesis by simp
    next
      case (Cons a pre')
      with eq have "cs = pre' @ kw @ suf" by simp
      with Cons.IH have "str_includes cs kw" by blast
      then show ?thesis by simp
    qed
  qed
qed

lemma filterE_total:
  "\<forall>x\<in>set xs. f x = Inr (P x) \<Longrightarrow> filterE f xs = Inr (filter P xs)"
  by (induction xs) simp_all

text \<open>On a post that is an object with a numeric score and comment count and a string title
  and content, the callback throws nothing and returns the conjunction of its four tests.\<close>

lemma relevant_typed:
  assumes "map_of kvs ''score'' = Some (JNum s)"
    and "map_of kvs ''commentCount'' = Some (JNum n)"
    and "map_of kvs ''title'' = Some (JStr t)"
    and "map_of kvs ''content'' = Some (JStr x)"
  shows "relevant lc sn options (JObj kvs) =
           Inr (the_minScore options \<le> s
                \<and> n \<le> the_maxComments options
                \<and> (the_keywords options = []
                     \<or> (\<exists>kw\<in>set (the_keywords options). str_includes (lc (t @ '' '' @ x)) (lc kw)))
                \<and> (\<forall>kw\<in>set (the_excludeKeywords options).
                       \<not> str_includes (lc (t @ '' '' @ x)) (lc kw)))"
proof -
  have pt: "post_text lc (JObj kvs) = Inr (lc (t @ '' '' @ x))"
    using assms by (simp add: post_text_def get_prop_def bindE_def template_str_def)
  have low: "js_lt sn (Some (JNum s)) (the_minScore options) = Inr (s < the_minScore options)"
    by (simp add: js_lt_def to_number_def bindE_def)
  have crowded: "js_gt sn (Some (JNum n)) (the_maxComments options) = Inr (n > the_maxComments options)"
    by (simp add: js_gt_def to_number_def bindE_def)
  show ?thesis
    using assms(1,2)
    by (auto simp: relevant_def get_prop_def bindE_def pt low crowded list_ex_iff)
qed

lemma getFeed_feed_of: "fst (getFeed c options (feed_of posts)) = Inr (JArr posts)"
  by (simp add: getFeed_def feed_of_def request_ok resp_200_def ok_def data_or_def bindE_def
      get_prop_def or_empty_def)

lemmas example_posts =
  post_security_def post_cats_def post_low_def post_crowded_def post_token_def post_agents_def
  mk_post_def num_at_def str_at_def get_prop_def

text \<open>
  C4, as the code has it. Let the feed that \<^verbatim>\<open>client.feed.get({ sort, limit })\<close> returns be an
  array of objects, each with a number as \<^verbatim>\<open>score\<close> and as \<^verbatim>\<open>commentCount\<close> and a string as
  \<^verbatim>\<open>title\<close> and as \<^verbatim>\<open>content\<close>. Then \<^verbatim>\<open>getRelevantPosts\<close> returns the posts of the feed, in the order
  of the feed, whose score is at least \<^verbatim>\<open>minScore\<close> (3 when not given), whose \<^verbatim>\<open>commentCount\<close> is at
  most \<^verbatim>\<open>maxComments\<close> (50 when not given), whose lower-cased text, which is the title, one
  space and the content, contains some lower-cased keyword unless the list of keywords is
  empty, and contains no lower-cased excluded keyword. The statement holds for whatever
  \<^verbatim>\<open>toLowerCase\<close> computes. The witness is the example of the claim, and a second feed in which
  each of the four tests rejects a post.
\<close>

theorem getRelevantPosts_filters:
  assumes "fst (getFeed c \<lparr>opt_sort = Some (case rel_sort options of None \<Rightarrow> ''hot'' | Some s \<Rightarrow> s),
                            opt_limit = Some (case rel_limit options of None \<Rightarrow> 20 | Some n \<Rightarrow> n),
                            opt_offset = None, opt_submolt = None, opt_timeRange = None\<rparr> fr) =
             Inr (JArr posts)"
    and "\<forall>p\<in>set posts. \<exists>kvs. p = JObj kvs
            \<and> map_of kvs ''score'' = Some (JNum (score p))
            \<and> map_of kvs ''commentCount'' = Some (JNum (commentCount p))
            \<and> map_of kvs ''title'' = Some (JStr (title p))
            \<and> map_of kvs ''content'' = Some (JStr (content p))"
  shows "fst (getRelevantPosts lc sn c options fr) =
           Inr (filter
                  (\<lambda>p. (case rel_minScore options of None \<Rightarrow> 3 | Some n \<Rightarrow> n) \<le> score p
                       \<and> commentCount p \<le> (case rel_maxComments options of None \<Rightarrow> 50 | Some n \<Rightarrow> n)
                       \<and> ((case rel_keywords options of None \<Rightarrow> [] | Some ks \<Rightarrow> ks) = []
                            \<or> (\<exists>kw\<in>set (case rel_keywords options of None \<Rightarrow> [] | Some ks \<Rightarrow> ks).
                                  str_includes (lc (title p @ '' '' @ content p)) (lc kw)))
                       \<and> (\<forall>kw\<in>set (case rel_excludeKeywords options of None \<Rightarrow> [] | Some ks \<Rightarrow> ks).
                              \<not> str_includes (lc (title p @ '' '' @ content p)) (lc kw)))
                  posts)"
proof -
  let ?P = "\<lambda>p. the_minScore options \<le> score p
                \<and> commentCount p \<le> the_maxComments options
                \<and> (the_keywords options = []
                     \<or> (\<exists>kw\<in>set (the_keywords options).
                           str_includes (lc (title p @ '' '' @ content p)) (lc kw)))
                \<and> (\<forall>kw\<in>set (the_excludeKeywords options).
                       \<not> str_includes (lc (title p @ '' '' @ content p)) (lc kw))"
  have "\<forall>p\<in>set posts. relevant lc sn options p = Inr (?P p)"
  proof
    fix p assume "p \<in> set posts"
    with assms(2) obtain kvs where "p = JObj kvs"
      "map_of kvs ''score'' = Some (JNum (score p))"
      "map_of kvs ''commentCount'' = Some (JNum (commentCount p))"
      "map_of kvs ''title'' = Some (JStr (title p))"
      "map_of kvs ''content'' = Some (JStr (content p))" by blast
    then show "relevant lc sn options p = Inr (?P p)"
      using relevant_typed [of kvs "score p" "commentCount p" "title p" "content p" lc sn options]
      by simp
  qed
  then have "filterE (relevant lc sn options) posts = Inr (filter ?P posts)"
    by (rule filterE_total)
  moreover obtain c' where
    "getFeed c \<lparr>opt_sort = Some (the_sort options), opt_limit = Some (the_limit options),
                 opt_offset = None, opt_submolt = None, opt_timeRange = None\<rparr> fr =
       (Inr (JArr posts), c')"
    using assms(1) by (cases "getFeed c \<lparr>opt_sort = Some (the_sort options),
        opt_limit = Some (the_limit options), opt_offset = None, opt_submolt = None,
        opt_timeRange = None\<rparr> fr") (simp add: the_sort_def the_limit_def)
  ultimately have "fst (getRelevantPosts lc sn c options fr) = Inr (filter ?P posts)"
    by (simp add: getRelevantPosts_def)
  then show ?thesis
    by (simp add: the_minScore_def the_maxComments_def the_keywords_def the_excludeKeywords_def)
qed

theorem getRelevantPosts_filters_witness:
  "fst (getFeed client0 \<lparr>opt_sort = Some ''hot'', opt_limit = Some 20, opt_offset = None,
                         opt_submolt = None, opt_timeRange = None\<rparr>
          (feed_of [post_security, post_cats])) = Inr (JArr [post_security, post_cats])
   \<and> post_security =
       JObj [(''score'', JNum 10), (''title'', JStr ''Security talk''), (''content'', JStr []),
             (''commentCount'', JNum 2)]
   \<and> post_cats =
       JObj [(''score'', JNum 10), (''title'', JStr ''Cats''), (''content'', JStr []),
             (''commentCount'', JNum 2)]
   \<and> fst (getRelevantPosts ascii_toLowerCase no_str_num client0 security_options
          (feed_of [post_security, post_cats])) = Inr [post_security]
   \<and> fst (getRelevantPosts ascii_toLowerCase no_str_num client0 strict_options
          (feed_of [post_security, post_cats, post_low, post_crowded, post_token, post_agents])) =
       Inr [post_security, post_agents]"
proof -
  have typed: "\<forall>p\<in>set [post_security, post_cats, post_low, post_crowded, post_token, post_agents].
      \<exists>kvs. p = JObj kvs
          \<and> map_of kvs ''score'' = Some (JNum (num_at ''score'' p))
          \<and> map_of kvs ''commentCount'' = Some (JNum (num_at ''commentCount'' p))
          \<and> map_of kvs ''title'' = Some (JStr (str_at ''title'' p))
          \<and> map_of kvs ''content'' = Some (JStr (str_at ''content'' p))"
    by (simp add: example_posts)
  then have typed2: "\<forall>p\<in>set [post_security, post_cats].
      \<exists>kvs. p = JObj kvs
          \<and> map_of kvs ''score'' = Some (JNum (num_at ''score'' p))
          \<and> map_of kvs ''commentCount'' = Some (JNum (num_at ''commentCount'' p))
          \<and> map_of kvs ''title'' = Some (JStr (str_at ''title'' p))
          \<and> map_of kvs ''content'' = Some (JStr (str_at ''content'' p))"
    by simp
  have a: "fst (getRelevantPosts ascii_toLowerCase no_str_num client0 security_options
          (feed_of [post_security, post_cats])) = Inr [post_security]"
    using typed2 getRelevantPosts_filters [where c = client0 and options = security_options
        and fr = "feed_of [post_security, post_cats]" and posts = "[post_security, post_cats]"
        and score = "num_at ''score''" and commentCount = "num_at ''commentCount''"
        and title = "str_at ''title''" and content = "str_at ''content''"
        and lc = ascii_toLowerCase and sn = no_str_num]
    by (simp add: getFeed_feed_of security_options_def example_posts ascii_toLowerCase_def
        lower_char_def)
  have b: "fst (getRelevantPosts ascii_toLowerCase no_str_num client0 strict_options
          (feed_of [post_security, post_cats, post_low, post_crowded, post_token, post_agents])) =
       Inr [post_security, post_agents]"
    using typed getRelevantPosts_filters [where c = client0 and options = strict_options
        and fr = "feed_of [post_security, post_cats, post_low, post_crowded, post_token, post_agents]"
        and posts = "[post_security, post_cats, post_low, post_crowded, post_token, post_agents]"
        and score = "num_at ''score''" and commentCount = "num_at ''commentCount''"
        and title = "str_at ''title''" and content = "str_at ''content''"
        and lc = ascii_toLowerCase and sn = no_str_num]
    by (simp add: getFeed_feed_of strict_options_def example_posts ascii_toLowerCase_def
        lower_char_def)
  have c: "post_security =
       JObj [(''score'', JNum 10), (''title'', JStr ''Security talk''), (''content'', JStr []),
             (''commentCount'', JNum 2)]"
    "post_cats =
       JObj [(''score'', JNum 10), (''title'', JStr ''Cats''), (''content'', JStr []),
             (''commentCount'', JNum 2)]"
    by (simp_all add: post_security_def post_cats_def mk_post_def)
  from a b c show ?thesis by (simp add: getFeed_feed_of)
qed

text \<open>
  C4, as the claim states it, fails in two ways. The text searched is not the title followed
  at once by the content: a space stands between them, so the keyword \<^verbatim>\<open>openclaw\<close> is not found
  in the post titled \<^verbatim>\<open>open\<close> with content \<^verbatim>\<open>claw\<close>, although the two concatenated contain it, and
  the post is not returned. A post with no \<^verbatim>\<open>score\<close> is returned at \<^verbatim>\<open>minScore = 5\<close>, since
  \<^verbatim>\<open>undefined < 5\<close> is false, although its score is not at least 5.
\<close>

theorem getRelevantPosts_counterexample:
  "str_includes (ascii_toLowerCase (''open'' @ ''claw'')) (ascii_toLowerCase ''openclaw'')
   \<and> fst (getRelevantPosts ascii_toLowerCase no_str_num client0 openclaw_options
            (feed_of [post_open_claw])) = Inr []
   \<and> get_prop (Some post_no_score) ''score'' = Inr None
   \<and> fst (getRelevantPosts ascii_toLowerCase no_str_num client0 min5_options
            (feed_of [post_no_score])) = Inr [post_no_score]"
  by (simp add: getRelevantPosts_def getFeed_def feed_of_def request_ok
      resp_200_def ok_def data_or_def or_empty_def relevant_def post_text_def template_str_def
      js_lt_def js_gt_def to_number_def bindE_def get_prop_def openclaw_options_def
      min5_options_def post_open_claw_def post_no_score_def mk_post_def the_minScore_def
      the_maxComments_def the_keywords_def the_excludeKeywords_def the_sort_def the_limit_def
      ascii_toLowerCase_def lower_char_def)

section \<open>Heartbeat\<close>

lemma shouldCheck_absent:
  "fs f = None \<Longrightarrow>
   shouldCheckMoltbook sn h f fs now_ms = Inr (h * 3600 \<le> epoch_seconds now_ms)"
  by (simp add: shouldCheckMoltbook_def loadHeartbeatState_def bindE_def get_prop_def js_or_def
      to_number_def Let_def)

lemma shouldCheck_number:
  "fs f = Some (Json (JObj kvs)) \<Longrightarrow> map_of kvs ''lastMoltbookCheck'' = Some (JNum lastCheck) \<Longrightarrow>
   shouldCheckMoltbook sn h f fs now_ms = Inr (h * 3600 \<le> epoch_seconds now_ms - lastCheck)"
  by (simp add: shouldCheckMoltbook_def loadHeartbeatState_def bindE_def get_prop_def js_or_def
      to_number_def Let_def)

lemma shouldCheck_no_field:
  "fs f = Some (Json (JObj kvs)) \<Longrightarrow> map_of kvs ''lastMoltbookCheck'' = None \<Longrightarrow>
   shouldCheckMoltbook sn h f fs now_ms = Inr (h * 3600 \<le> epoch_seconds now_ms)"
  by (simp add: shouldCheckMoltbook_def loadHeartbeatState_def bindE_def get_prop_def js_or_def
      to_number_def Let_def)

lemma map_of_update_same: "map_of (AList.update k v kvs) k = Some v"
  by (simp add: update_conv')

lemma map_of_update_other: "k' \<noteq> k \<Longrightarrow> map_of (AList.update k v kvs) k' = map_of kvs k'"
  by (simp add: update_conv')

lemma update_absent:
  "fs f = None \<Longrightarrow>
   updateMoltbookCheckTime f fs now_ms =
     Inr (fs(f \<mapsto> Json (JObj [(''lastMoltbookCheck'', JNum (epoch_seconds now_ms))])))"
  by (simp add: updateMoltbookCheckTime_def loadHeartbeatState_def bindE_def set_prop_def
      saveHeartbeatState_def)

lemma update_object:
  "fs f = Some (Json (JObj kvs)) \<Longrightarrow>
   updateMoltbookCheckTime f fs now_ms =
     Inr (fs(f \<mapsto> Json (JObj (AList.update ''lastMoltbookCheck'' (JNum (epoch_seconds now_ms)) kvs))))"
  by (simp add: updateMoltbookCheckTime_def loadHeartbeatState_def bindE_def set_prop_def
      saveHeartbeatState_def)

lemma after_update:
  assumes "fs f = None \<or> (\<exists>kvs. fs f = Some (Json (JObj kvs)))"
    and "updateMoltbookCheckTime f fs t0 = Inr fs1"
  shows "\<exists>kvs1. fs1 f = Some (Json (JObj kvs1))
           \<and> map_of kvs1 ''lastMoltbookCheck'' = Some (JNum (epoch_seconds t0))"
  using assms by (auto simp: update_absent update_object map_of_update_same)

text \<open>
  C5. With \<open>lastCheck\<close> the number stored as \<^verbatim>\<open>lastMoltbookCheck\<close> in the state file, and 0 when
  the file is absent, \<^verbatim>\<open>shouldCheckMoltbook(h)\<close> returns whether
  \<^verbatim>\<open>now - lastCheck >= h * 3600\<close>, with \<^verbatim>\<open>now\<close> the epoch seconds of the clock. So it returns
  \<^verbatim>\<open>false\<close> for 2 hours at any clock reading less than 7200 seconds after a successful
  \<^verbatim>\<open>updateMoltbookCheckTime\<close> (on an absent file or a file holding an object), and \<^verbatim>\<open>true\<close> when
  the stored value is \<^verbatim>\<open>now - 3 * 3600\<close>.
\<close>

theorem shouldCheckMoltbook_interval:
  "((fs f = None \<and> lastCheck = 0)
      \<or> (\<exists>kvs. fs f = Some (Json (JObj kvs)) \<and> map_of kvs ''lastMoltbookCheck'' = Some (JNum lastCheck))
    \<longrightarrow> shouldCheckMoltbook sn h f fs now_ms = Inr (epoch_seconds now_ms - lastCheck \<ge> h * 3600))
   \<and> ((fs f = None \<or> (\<exists>kvs. fs f = Some (Json (JObj kvs))))
        \<and> updateMoltbookCheckTime f fs t0 = Inr fs1
        \<and> epoch_seconds t1 - epoch_seconds t0 < 2 * 3600
      \<longrightarrow> shouldCheckMoltbook sn 2 f fs1 t1 = Inr False)
   \<and> (fs2 f = Some (Json (JObj kvs2))
        \<and> map_of kvs2 ''lastMoltbookCheck'' = Some (JNum (epoch_seconds t1 - 3 * 3600))
      \<longrightarrow> shouldCheckMoltbook sn 2 f fs2 t1 = Inr True)"
proof (intro conjI impI)
  assume "(fs f = None \<and> lastCheck = 0)
      \<or> (\<exists>kvs. fs f = Some (Json (JObj kvs)) \<and> map_of kvs ''lastMoltbookCheck'' = Some (JNum lastCheck))"
  then show "shouldCheckMoltbook sn h f fs now_ms = Inr (epoch_seconds now_ms - lastCheck \<ge> h * 3600)"
    by (auto simp: shouldCheck_absent shouldCheck_number)
next
  assume a: "(fs f = None \<or> (\<exists>kvs. fs f = Some (Json (JObj kvs))))
        \<and> updateMoltbookCheckTime f fs t0 = Inr fs1
        \<and> epoch_seconds t1 - epoch_seconds t0 < 2 * 3600"
  then obtain kvs1 where "fs1 f = Some (Json (JObj kvs1))"
    "map_of kvs1 ''lastMoltbookCheck'' = Some (JNum (epoch_seconds t0))"
    using after_update [of fs f t0 fs1] by blast
  then have "shouldCheckMoltbook sn 2 f fs1 t1 = Inr (2 * 3600 \<le> epoch_seconds t1 - epoch_seconds t0)"
    by (rule shouldCheck_number)
  with a show "shouldCheckMoltbook sn 2 f fs1 t1 = Inr False" by simp
next
  assume "fs2 f = Some (Json (JObj kvs2))
        \<and> map_of kvs2 ''lastMoltbookCheck'' = Some (JNum (epoch_seconds t1 - 3 * 3600))"
  then have "shouldCheckMoltbook sn 2 f fs2 t1 =
      Inr (2 * 3600 \<le> epoch_seconds t1 - (epoch_seconds t1 - 3 * 3600))"
    by (simp add: shouldCheck_number)
  then show "shouldCheckMoltbook sn 2 f fs2 t1 = Inr True" by simp
qed

theorem shouldCheckMoltbook_interval_witness:
  "Map.empty state_path = None
   \<and> updateMoltbookCheckTime state_path Map.empty 1700000000123 = Inr fs_checked
   \<and> epoch_seconds 1700000000456 - epoch_seconds 1700000000123 < 2 * 3600
   \<and> fs_rewritten state_path = Some (Json (JObj [(''lastMoltbookCheck'', JNum 1699989200)]))
   \<and> epoch_seconds 1700000000456 - 3 * 3600 = 1699989200
   \<and> shouldCheckMoltbook (\<lambda>s. None) 2 state_path Map.empty 1700000000123 = Inr True
   \<and> shouldCheckMoltbook (\<lambda>s. None) 2 state_path fs_checked 1700000000456 = Inr False
   \<and> shouldCheckMoltbook (\<lambda>s. None) 2 state_path fs_rewritten 1700000000456 = Inr True"
proof -
  have u: "updateMoltbookCheckTime state_path Map.empty 1700000000123 = Inr fs_checked"
    by (simp add: updateMoltbookCheckTime_def loadHeartbeatState_def bindE_def set_prop_def
        saveHeartbeatState_def fs_checked_def epoch_seconds_def)
  have r: "fs_rewritten state_path = Some (Json (JObj [(''lastMoltbookCheck'', JNum 1699989200)]))"
    by (simp add: fs_rewritten_def)
  show ?thesis
    using u r shouldCheckMoltbook_interval [of Map.empty state_path 0 "\<lambda>s. None" 2 1700000000123
        1700000000123 fs_checked 1700000000456 fs_rewritten "[(''lastMoltbookCheck'', JNum 1699989200)]"]
    by (simp add: epoch_seconds_def)
qed

text \<open>
  C9. On a state file that holds a JSON object, \<^verbatim>\<open>updateMoltbookCheckTime\<close> writes back to the
  same file an object in which \<^verbatim>\<open>lastMoltbookCheck\<close> is the epoch seconds of the clock and
  every other key has the value it had; no other file changes.
\<close>

theorem updateMoltbookCheckTime_keeps_fields:
  assumes "fs f = Some (Json (JObj kvs))"
  shows "\<exists>kvs'. updateMoltbookCheckTime f fs now_ms = Inr (fs(f \<mapsto> Json (JObj kvs')))
           \<and> map_of kvs' ''lastMoltbookCheck'' = Some (JNum (now_ms div 1000))
           \<and> (\<forall>k. k \<noteq> ''lastMoltbookCheck'' \<longrightarrow> map_of kvs' k = map_of kvs k)"
proof -
  let ?kvs' = "AList.update ''lastMoltbookCheck'' (JNum (now_ms div 1000)) kvs"
  have "updateMoltbookCheckTime f fs now_ms = Inr (fs(f \<mapsto> Json (JObj ?kvs')))"
    using assms update_object [of fs f kvs now_ms] by (simp add: epoch_seconds_def)
  moreover have "map_of ?kvs' ''lastMoltbookCheck'' = Some (JNum (now_ms div 1000))"
    by (rule map_of_update_same)
  moreover have "\<forall>k. k \<noteq> ''lastMoltbookCheck'' \<longrightarrow> map_of ?kvs' k = map_of kvs k"
    by (simp add: map_of_update_other)
  ultimately show ?thesis by blast
qed

theorem updateMoltbookCheckTime_keeps_fields_witness:
  "fs_state state_path = Some (Json (JObj [(''lastChatCheck'', JNum 1699990000),
                                  (''lastMoltbookCheck'', JNum 1699000000),
                                  (''notes'', JArr [JStr ''a''])]))
   \<and> updateMoltbookCheckTime state_path fs_state 1700000000123 =
       Inr (fs_state(state_path \<mapsto>
              Json (JObj [(''lastChatCheck'', JNum 1699990000), (''lastMoltbookCheck'', JNum 1700000000),
                          (''notes'', JArr [JStr ''a''])])))"
proof -
  have a: "fs_state state_path = Some (Json (JObj [(''lastChatCheck'', JNum 1699990000),
                                  (''lastMoltbookCheck'', JNum 1699000000),
                                  (''notes'', JArr [JStr ''a''])]))"
    by (simp add: fs_state_def)
  from a updateMoltbookCheckTime_keeps_fields [of fs_state state_path _ 1700000000123]
  obtain kvs' where
    "updateMoltbookCheckTime state_path fs_state 1700000000123 =
       Inr (fs_state(state_path \<mapsto> Json (JObj kvs')))" by blast
  moreover have "updateMoltbookCheckTime state_path fs_state 1700000000123 =
       Inr (fs_state(state_path \<mapsto>
              Json (JObj [(''lastChatCheck'', JNum 1699990000), (''lastMoltbookCheck'', JNum 1700000000),
                          (''notes'', JArr [JStr ''a''])])))"
    using a update_object [of fs_state state_path _ 1700000000123] by (simp add: epoch_seconds_def)
  ultimately show ?thesis using a by simp
qed

end
